theory Spec2Isabelle
  imports Main "HOL-Library.Sublist"
begin

section \<open>The movie catalogue client (script.js)\<close>

text \<open>
  A shallow embedding of \<^verbatim>\<open>script.js\<close>: the module-level variable \<^verbatim>\<open>allMovies\<close>,
  the list container, the search box, the error element and the pending timeouts are the
  fields of one state record; every handler takes the state and returns the new one.
  What the user answers to a prompt or a confirm box and what the server answers to a
  request are arguments of the handlers; the prompts shown and the requests sent are
  appended to the field \<open>io\<close>.

  Strings are lists of 8-bit characters, read as ASCII text; numbers are integers
  (\<^verbatim>\<open>NaN\<close> is \<open>None\<close>); a field that is \<^verbatim>\<open>undefined\<close> is \<open>None\<close>.
\<close>

subsection \<open>Strings and numbers of the host language\<close>

text \<open>The white space that \<^verbatim>\<open>trim\<close> and \<^verbatim>\<open>parseInt\<close> strip (ASCII part).\<close>

definition isWhiteSpace :: "char \<Rightarrow> bool" where
  "isWhiteSpace c =
     (c = CHR 0x09 \<or> c = CHR 0x0A \<or> c = CHR 0x0B \<or> c = CHR 0x0C \<or> c = CHR 0x0D \<or> c = CHR 0x20)"

definition trim :: "string \<Rightarrow> string" where
  "trim s = rev (dropWhile isWhiteSpace (rev (dropWhile isWhiteSpace s)))"

definition lowerChar :: "char \<Rightarrow> char" where
  "lowerChar c =
     (case map_of (zip ''ABCDEFGHIJKLMNOPQRSTUVWXYZ'' ''abcdefghijklmnopqrstuvwxyz'') c of
        None \<Rightarrow> c
      | Some l \<Rightarrow> l)"

definition toLowerCase :: "string \<Rightarrow> string" where
  "toLowerCase s = map lowerChar s"

fun startsWith :: "string \<Rightarrow> string \<Rightarrow> bool" where
  "startsWith s [] = True"
| "startsWith [] (q # qs) = False"
| "startsWith (c # cs) (q # qs) = (c = q \<and> startsWith cs qs)"

text \<open>\<^verbatim>\<open>s.includes(q)\<close>: \<open>q\<close> occurs in \<open>s\<close> at some position.\<close>

fun str_includes :: "string \<Rightarrow> string \<Rightarrow> bool" where
  "str_includes [] q = (q = [])"
| "str_includes (c # cs) q = (startsWith (c # cs) q \<or> str_includes cs q)"

definition digit :: "nat \<Rightarrow> char" where
  "digit n = ''0123456789'' ! (n mod 10)"

fun show_nat :: "nat \<Rightarrow> string" where
  "show_nat n = (if n < 10 then [digit n] else show_nat (n div 10) @ [digit n])"

declare show_nat.simps [simp del]

text \<open>\<^verbatim>\<open>String(n)\<close> and \<^verbatim>\<open>${n}\<close> for an integer.\<close>

definition show_int :: "int \<Rightarrow> string" where
  "show_int i = (if i < 0 then CHR ''-'' # show_nat (nat (- i)) else show_nat (nat i))"

definition isDigit :: "char \<Rightarrow> bool" where
  "isDigit c = (48 \<le> (of_char c :: nat) \<and> (of_char c :: nat) \<le> 57)"

definition digitsValue :: "string \<Rightarrow> int" where
  "digitsValue ds = foldl (\<lambda>a c. 10 * a + (int (of_char c) - 48)) 0 ds"

text \<open>
  \<^verbatim>\<open>parseInt(s, 10)\<close>: leading white space is skipped, one sign is read, then the longest
  run of decimal digits; no digit gives \<^verbatim>\<open>NaN\<close>.
\<close>

definition parseInt :: "string \<Rightarrow> int option" where
  "parseInt s =
     (let t = dropWhile isWhiteSpace s;
          neg = (t \<noteq> [] \<and> hd t = CHR ''-'');
          u = (if t \<noteq> [] \<and> (hd t = CHR ''-'' \<or> hd t = CHR ''+'') then tl t else t);
          ds = takeWhile isDigit u
      in if ds = [] then None
         else Some (if neg then - digitsValue ds else digitsValue ds))"

subsection \<open>The entity and the page\<close>

text \<open>An id as the server assigns it: a JSON number or a JSON string.\<close>

datatype ident = IdNum int | IdStr string

record movie =
  movie_id :: "ident option"
  title :: "string option"
  year :: "int option"
  genre :: "string option"

text \<open>\<^verbatim>\<open>x || d\<close> on a text field and on a number field: what is falsy gives \<open>d\<close>.\<close>

definition strOr :: "string option \<Rightarrow> string \<Rightarrow> string" where
  "strOr x d = (case x of None \<Rightarrow> d | Some t \<Rightarrow> if t = [] then d else t)"

definition numOr :: "int option \<Rightarrow> string \<Rightarrow> string" where
  "numOr x d = (case x of None \<Rightarrow> d | Some n \<Rightarrow> if n = 0 then d else show_int n)"

definition show_ident :: "ident option \<Rightarrow> string" where
  "show_ident i =
     (case i of None \<Rightarrow> ''undefined'' | Some (IdNum n) \<Rightarrow> show_int n | Some (IdStr t) \<Rightarrow> t)"

text \<open>The click listeners that \<^verbatim>\<open>renderMovies\<close> attaches, with the values they close over.\<close>

datatype listener =
  EditClick "ident option" "string option" "int option" "string option"
| DeleteClick "ident option"

datatype node =
  Element string "string list" "node list" "listener list"
| Text string

text \<open>The body of a request: \<^verbatim>\<open>JSON.stringify\<close> leaves an undefined year out.\<close>

record payload =
  p_title :: string
  p_year :: "int option"
  p_genre :: string

datatype http_method = GET | POST | PATCH | DELETE

datatype io_event =
  Prompt string string
| Confirm string
| Fetch http_method string "payload option"
| FormReset

text \<open>
  What \<^verbatim>\<open>fetch\<close> settles to: a rejection with the error's message, or a response with its
  status and the outcome of \<^verbatim>\<open>res.json()\<close> (\<open>Inl\<close> a parse error's message).
\<close>

datatype 'a fetch_result = Rejected string | Resolved nat "string + 'a"

definition ok :: "nat \<Rightarrow> bool" where
  "ok st = (200 \<le> st \<and> st \<le> 299)"

record app =
  allMovies :: "movie list"
  movieListEl :: "node list"
  searchInput :: string
  mm_error :: "string option"
  timers :: "nat list"
  now :: nat
  io :: "io_event list"

definition API_URL :: string where
  "API_URL = ''http://localhost:3000/movies''"

definition init_app :: app where
  "init_app = \<lparr>allMovies = [], movieListEl = [], searchInput = [], mm_error = None,
     timers = [], now = 0, io = []\<rparr>"

subsection \<open>The error element and its timeouts\<close>

text \<open>
  \<open>mm_error\<close> is \<open>None\<close> until the element is created; afterwards it holds its text.
  Every call schedules one more timeout, due 5000 ms after the call.
\<close>

definition showError :: "string \<Rightarrow> app \<Rightarrow> app" where
  "showError message s = s\<lparr>mm_error := Some message, timers := timers s @ [now s + 5000]\<rparr>"

text \<open>
  The clock moves on by \<open>d\<close> ms; every timeout that is due by then runs its callback
  \<^verbatim>\<open>el.textContent = ''\<close> and leaves the queue.
\<close>

definition advance :: "nat \<Rightarrow> app \<Rightarrow> app" where
  "advance d s =
     (let t = now s + d;
          due = filter (\<lambda>x. x \<le> t) (timers s)
      in s\<lparr>now := t,
           timers := filter (\<lambda>x. \<not> x \<le> t) (timers s),
           mm_error := (if due = [] then mm_error s else Some [])\<rparr>)"

subsection \<open>Rendering\<close>

definition noResults :: node where
  "noResults = Element ''p'' [] [Text ''No movies found matching your criteria.''] []"

definition movieElement :: "movie \<Rightarrow> node" where
  "movieElement m =
     Element ''div'' [''movie-item'']
       [Element ''p'' []
          [Element ''strong'' [] [Text (strOr (title m) ''(Untitled)'')] [],
           Text ('' ('' @ numOr (year m) ''N/A'' @ '') - '' @ strOr (genre m) ''Unknown'')] [],
        Element ''button'' [''edit''] [Text ''Edit'']
          [EditClick (movie_id m) (title m) (year m) (genre m)],
        Element ''button'' [''delete''] [Text ''Delete''] [DeleteClick (movie_id m)]]
       []"

text \<open>The container is emptied, then gets the placeholder or one child per movie.\<close>

definition renderMovies :: "movie list \<Rightarrow> app \<Rightarrow> app" where
  "renderMovies moviesToDisplay s =
     (if moviesToDisplay = [] then s\<lparr>movieListEl := [noResults]\<rparr>
      else s\<lparr>movieListEl := foldl (\<lambda>kids m. kids @ [movieElement m]) [] moviesToDisplay\<rparr>)"

text \<open>All listeners in a tree, and all its text, in document order.\<close>

fun triggers :: "node \<Rightarrow> listener list" where
  "triggers (Element tg cl kids ls) = ls @ concat (map triggers kids)"
| "triggers (Text t) = []"

fun textContent :: "node \<Rightarrow> string" where
  "textContent (Element tg cl kids ls) = concat (map textContent kids)"
| "textContent (Text t) = t"

subsection \<open>Filtering\<close>

definition filterMovies :: "app \<Rightarrow> string \<Rightarrow> movie list" where
  "filterMovies s query =
     (let q = toLowerCase (trim query)
      in if q = [] then allMovies s
         else filter (\<lambda>m. str_includes (toLowerCase (strOr (title m) [])) q
                         \<or> str_includes (toLowerCase (strOr (genre m) [])) q) (allMovies s))"

text \<open>The listener of the search box.\<close>

definition onSearchInput :: "string \<Rightarrow> app \<Rightarrow> app" where
  "onSearchInput v s =
     (let s1 = s\<lparr>searchInput := v\<rparr> in renderMovies (filterMovies s1 v) s1)"

subsection \<open>Loading\<close>

definition fetchMovies_begin :: "app \<Rightarrow> app" where
  "fetchMovies_begin s = s\<lparr>io := io s @ [Fetch GET API_URL None]\<rparr>"

definition fetchMovies_settle :: "movie list fetch_result \<Rightarrow> app \<Rightarrow> app" where
  "fetchMovies_settle r s =
     (case r of
        Rejected msg \<Rightarrow> showError (''Error fetching movies: '' @ msg) s
      | Resolved st body \<Rightarrow>
          if \<not> ok st then
            showError (''Error fetching movies: '' @ ''Server returned '' @ show_nat st) s
          else (case body of
                  Inl msg \<Rightarrow> showError (''Error fetching movies: '' @ msg) s
                | Inr movies \<Rightarrow> renderMovies movies (s\<lparr>allMovies := movies\<rparr>)))"

subsection \<open>Editing\<close>

text \<open>
  The part of \<^verbatim>\<open>editMoviePrompt\<close> that runs at the click: the three prompts, answered by
  \<open>a_title\<close>, \<open>a_year\<close>, \<open>a_genre\<close> (\<open>None\<close> is Cancel), and the request. The flag
  says whether a request is now pending.
\<close>

definition editMoviePrompt_begin ::
  "ident option \<Rightarrow> string option \<Rightarrow> int option \<Rightarrow> string option \<Rightarrow>
   string option \<Rightarrow> string option \<Rightarrow> string option \<Rightarrow> app \<Rightarrow> app \<times> bool" where
  "editMoviePrompt_begin ident currentTitle currentYear currentGenre a_title a_year a_genre s =
     (if ident = None then (showError ''Cannot edit: missing id'' s, False)
      else
        let s1 = s\<lparr>io := io s @ [Prompt ''Title:'' (case currentTitle of None \<Rightarrow> [] | Some t \<Rightarrow> t)]\<rparr>
        in (case a_title of
              None \<Rightarrow> (s1, False)
            | Some title_in \<Rightarrow>
               (let s2 = s1\<lparr>io := io s1 @ [Prompt ''Release Year:'' (numOr currentYear [])]\<rparr>
                in (case a_year of
                      None \<Rightarrow> (s2, False)
                    | Some yearInput \<Rightarrow>
                       (let year_in = (case parseInt yearInput of
                                         None \<Rightarrow> None
                                       | Some n \<Rightarrow> if n = 0 then None else Some n);
                            s3 = s2\<lparr>io := io s2 @ [Prompt ''Genre:'' (strOr currentGenre [])]\<rparr>;
                            genre_in = strOr a_genre [];
                            body = \<lparr>p_title = trim title_in, p_year = year_in,
                                    p_genre = trim genre_in\<rparr>
                        in (s3\<lparr>io := io s3 @
                                 [Fetch PATCH (API_URL @ ''/'' @ show_ident ident) (Some body)]\<rparr>,
                            True))))))"

text \<open>The part that runs when the request settles, on the state of that moment.\<close>

definition editMoviePrompt_settle :: "ident option \<Rightarrow> movie fetch_result \<Rightarrow> app \<Rightarrow> app" where
  "editMoviePrompt_settle ident r s =
     (case r of
        Rejected msg \<Rightarrow> showError msg s
      | Resolved st body \<Rightarrow>
          if \<not> ok st then showError (''Update failed: '' @ show_nat st) s
          else (case body of
                  Inl msg \<Rightarrow> showError msg s
                | Inr updated \<Rightarrow>
                    let s1 = s\<lparr>allMovies :=
                               map (\<lambda>m. if movie_id m = ident then updated else m) (allMovies s)\<rparr>
                    in renderMovies (filterMovies s1 (searchInput s1)) s1))"

definition editMoviePrompt ::
  "ident option \<Rightarrow> string option \<Rightarrow> int option \<Rightarrow> string option \<Rightarrow>
   string option \<Rightarrow> string option \<Rightarrow> string option \<Rightarrow> movie fetch_result \<Rightarrow> app \<Rightarrow> app" where
  "editMoviePrompt ident currentTitle currentYear currentGenre a_title a_year a_genre r s =
     (case editMoviePrompt_begin ident currentTitle currentYear currentGenre
             a_title a_year a_genre s of
        (s1, pending) \<Rightarrow> if pending then editMoviePrompt_settle ident r s1 else s1)"

subsection \<open>Deleting\<close>

definition deleteMovie_begin :: "ident option \<Rightarrow> bool \<Rightarrow> app \<Rightarrow> app \<times> bool" where
  "deleteMovie_begin ident confirmed s =
     (let s1 = s\<lparr>io := io s @ [Confirm ''Delete this movie?'']\<rparr>
      in if \<not> confirmed then (s1, False)
         else (s1\<lparr>io := io s1 @ [Fetch DELETE (API_URL @ ''/'' @ show_ident ident) None]\<rparr>, True))"

definition deleteMovie_settle :: "ident option \<Rightarrow> movie fetch_result \<Rightarrow> app \<Rightarrow> app" where
  "deleteMovie_settle ident r s =
     (case r of
        Rejected msg \<Rightarrow> showError msg s
      | Resolved st body \<Rightarrow>
          if \<not> ok st then showError (''Delete failed: '' @ show_nat st) s
          else
            let s1 = s\<lparr>allMovies := filter (\<lambda>m. movie_id m \<noteq> ident) (allMovies s)\<rparr>
            in renderMovies (allMovies s1) s1)"

definition deleteMovie :: "ident option \<Rightarrow> bool \<Rightarrow> movie fetch_result \<Rightarrow> app \<Rightarrow> app" where
  "deleteMovie ident confirmed r s =
     (case deleteMovie_begin ident confirmed s of
        (s1, pending) \<Rightarrow> if pending then deleteMovie_settle ident r s1 else s1)"

subsection \<open>Adding\<close>

text \<open>
  The submit listener of the form, on the values of its three fields. \<^verbatim>\<open>!year\<close> holds
  for \<^verbatim>\<open>undefined\<close>, \<^verbatim>\<open>NaN\<close> and 0.
\<close>

definition addMovie_begin :: "string \<Rightarrow> string \<Rightarrow> string \<Rightarrow> app \<Rightarrow> app \<times> bool" where
  "addMovie_begin titleVal genreVal yearVal s =
     (let title_in = trim titleVal;
          genre_in = trim genreVal;
          year_in = (if yearVal \<noteq> [] then parseInt yearVal else None)
      in if title_in = [] \<or> year_in = None \<or> year_in = Some 0
         then (showError ''Please provide Title and Year'' s, False)
         else (s\<lparr>io := io s @
                  [Fetch POST API_URL
                     (Some \<lparr>p_title = title_in, p_year = year_in, p_genre = genre_in\<rparr>)]\<rparr>,
               True))"

definition addMovie_settle :: "movie fetch_result \<Rightarrow> app \<Rightarrow> app" where
  "addMovie_settle r s =
     (case r of
        Rejected msg \<Rightarrow> showError msg s
      | Resolved st body \<Rightarrow>
          if \<not> ok st then showError (''Add failed: '' @ show_nat st) s
          else (case body of
                  Inl msg \<Rightarrow> showError msg s
                | Inr created \<Rightarrow>
                    let s1 = s\<lparr>allMovies := allMovies s @ [created]\<rparr>;
                        s2 = renderMovies (allMovies s1) s1
                    in s2\<lparr>io := io s2 @ [FormReset]\<rparr>))"

definition addMovie :: "string \<Rightarrow> string \<Rightarrow> string \<Rightarrow> movie fetch_result \<Rightarrow> app \<Rightarrow> app" where
  "addMovie titleVal genreVal yearVal r s =
     (case addMovie_begin titleVal genreVal yearVal s of
        (s1, pending) \<Rightarrow> if pending then addMovie_settle r s1 else s1)"

text \<open>The requests among the effects, and the prompts among them.\<close>

fun isFetch :: "io_event \<Rightarrow> bool" where
  "isFetch (Fetch m u b) = True"
| "isFetch _ = False"

fun isPrompt :: "io_event \<Rightarrow> bool" where
  "isPrompt (Prompt m d) = True"
| "isPrompt _ = False"

definition requests :: "app \<Rightarrow> io_event list" where
  "requests s = filter isFetch (io s)"

definition prompts :: "app \<Rightarrow> io_event list" where
  "prompts s = filter isPrompt (io s)"

subsection \<open>The catalogue of the scenarios\<close>

definition dune :: movie where
  "dune = \<lparr>movie_id = Some (IdNum 1), title = Some ''Dune'', year = Some 2021,
     genre = Some ''Sci-Fi''\<rparr>"

definition amelie :: movie where
  "amelie = \<lparr>movie_id = Some (IdNum 2), title = Some ''Amelie'', year = Some 2001,
     genre = Some ''Romance''\<rparr>"

definition catalogue :: app where
  "catalogue = init_app\<lparr>allMovies := [dune, amelie]\<rparr>"

section \<open>Properties\<close>

subsection \<open>Auxiliary facts\<close>

lemma startsWith_prefix: "startsWith s q \<longleftrightarrow> prefix q s"
  by (induction s q rule: startsWith.induct) auto

text \<open>
  \<open>str_includes\<close> decides the substring relation of the library:
  \<open>sublist q s\<close> is \<open>\<exists>ps ss. s = ps @ q @ ss\<close>.
\<close>

lemma str_includes_sublist: "str_includes s q \<longleftrightarrow> sublist q s"
proof (induction s)
  case Nil
  show ?case by simp
next
  case (Cons c cs)
  show ?case
    using Cons.IH by (simp add: sublist_Cons_right startsWith_prefix del: startsWith.simps)
qed

lemma str_includes_append: "str_includes (p @ q) q"
  by (simp add: str_includes_sublist)

lemma trim_Nil_iff: "trim s = [] \<longleftrightarrow> (\<forall>c\<in>set s. isWhiteSpace c)"
proof
  assume "trim s = []"
  then have "dropWhile isWhiteSpace (rev (dropWhile isWhiteSpace s)) = []"
    by (simp add: trim_def)
  then have a: "\<forall>c\<in>set (dropWhile isWhiteSpace s). isWhiteSpace c"
    by simp
  show "\<forall>c\<in>set s. isWhiteSpace c"
  proof (cases "dropWhile isWhiteSpace s")
    case Nil
    then show ?thesis by simp
  next
    case (Cons x xs)
    then have "\<not> isWhiteSpace x" by (metis hd_dropWhile list.sel(1) list.distinct(1))
    moreover have "isWhiteSpace x" using a Cons by simp
    ultimately show ?thesis by simp
  qed
next
  assume "\<forall>c\<in>set s. isWhiteSpace c"
  then have "dropWhile isWhiteSpace s = []" by simp
  then have "trim s = rev (dropWhile isWhiteSpace (rev []))" by (simp only: trim_def)
  then show "trim s = []" by simp
qed

lemma toLowerCase_Nil_iff: "toLowerCase s = [] \<longleftrightarrow> s = []"
  by (simp add: toLowerCase_def)

lemma allMovies_showError: "allMovies (showError msg s) = allMovies s"
  by (simp add: showError_def)

lemma io_showError: "io (showError msg s) = io s"
  by (simp add: showError_def)

lemma mm_error_showError: "mm_error (showError msg s) = Some msg"
  by (simp add: showError_def)

lemma allMovies_renderMovies: "allMovies (renderMovies ms s) = allMovies s"
  by (simp add: renderMovies_def)

lemma io_renderMovies: "io (renderMovies ms s) = io s"
  by (simp add: renderMovies_def)

lemma show_nat_500: "show_nat 500 = ''500''"
  by (simp add: show_nat.simps digit_def)

lemma foldl_snoc_map: "foldl (\<lambda>kids m. kids @ [f m]) acc ms = acc @ map f ms"
  by (induction ms arbitrary: acc) simp_all

lemma movieListEl_renderMovies:
  "movieListEl (renderMovies ms s) = (if ms = [] then [noResults] else map movieElement ms)"
  by (simp add: renderMovies_def foldl_snoc_map)

lemma length_filter_split:
  "length (filter (\<lambda>x. \<not> P x) xs) + length (filter P xs) = length xs"
  by (induction xs) simp_all

lemma distinct_count_one:
  "distinct (map f xs) \<Longrightarrow> a \<in> f ` set xs \<Longrightarrow> length (filter (\<lambda>x. f x = a) xs) = 1"
proof (induction xs)
  case Nil
  then show ?case by simp
next
  case (Cons x xs)
  show ?case
  proof (cases "f x = a")
    case True
    then have "a \<notin> f ` set xs" using Cons.prems(1) by auto
    then have "filter (\<lambda>x. f x = a) xs = []" by (auto simp: filter_empty_conv)
    then show ?thesis using True by simp
  next
    case False
    then show ?thesis using Cons by auto
  qed
qed

subsection \<open>The cache after a create and after an update\<close>

text \<open>
  Claim C1, as the code has it. The script has no single upsert. After a successful
  create the returned movie is pushed: the cache is the old one with the movie appended,
  whether or not its id is already there. After a successful update of the entry \<open>i\<close>
  the cache keeps its size; every entry whose id is \<open>i\<close> becomes the returned movie and
  every other entry stays; when no entry has the id \<open>i\<close> the cache is unchanged and
  nothing is appended.
\<close>

theorem cache_after_create_and_update:
  "ok st \<Longrightarrow>
     allMovies (addMovie_settle (Resolved st (Inr m)) s) = allMovies s @ [m]
     \<and> length (allMovies (editMoviePrompt_settle i (Resolved st (Inr m)) s)) = length (allMovies s)
     \<and> (\<forall>k < length (allMovies s).
          allMovies (editMoviePrompt_settle i (Resolved st (Inr m)) s) ! k =
            (if movie_id (allMovies s ! k) = i then m else allMovies s ! k))
     \<and> (i \<notin> movie_id ` set (allMovies s) \<longrightarrow>
          allMovies (editMoviePrompt_settle i (Resolved st (Inr m)) s) = allMovies s)"
proof -
  assume st: "ok st"
  have upd: "allMovies (editMoviePrompt_settle i (Resolved st (Inr m)) s) =
      map (\<lambda>x. if movie_id x = i then m else x) (allMovies s)"
    using st by (simp add: editMoviePrompt_settle_def Let_def allMovies_renderMovies)
  have add: "allMovies (addMovie_settle (Resolved st (Inr m)) s) = allMovies s @ [m]"
    using st by (simp add: addMovie_settle_def Let_def allMovies_renderMovies)
  have same: "i \<notin> movie_id ` set (allMovies s) \<Longrightarrow>
      map (\<lambda>x. if movie_id x = i then m else x) (allMovies s) = allMovies s"
    by (intro map_idI) auto
  show ?thesis
    using add same by (simp add: upd)
qed

theorem cache_after_create_and_update_witness:
  "ok 200
   \<and> allMovies (addMovie_settle (Resolved 200 (Inr amelie)) (init_app\<lparr>allMovies := [dune]\<rparr>))
       = [dune, amelie]
   \<and> allMovies (editMoviePrompt_settle (Some (IdNum 2))
        (Resolved 200 (Inr (amelie\<lparr>year := Some 2002\<rparr>))) catalogue)
       = [dune, amelie\<lparr>year := Some 2002\<rparr>]
   \<and> allMovies (editMoviePrompt_settle (Some (IdNum 3))
        (Resolved 200 (Inr (amelie\<lparr>movie_id := Some (IdNum 3)\<rparr>))) catalogue)
       = [dune, amelie]"
proof -
  have k: "ok 200" by (simp add: ok_def)
  have a: "allMovies (addMovie_settle (Resolved 200 (Inr amelie)) (init_app\<lparr>allMovies := [dune]\<rparr>))
       = [dune, amelie]"
    using cache_after_create_and_update [OF k, of amelie "init_app\<lparr>allMovies := [dune]\<rparr>"]
    by simp
  let ?s = "editMoviePrompt_settle (Some (IdNum 2))
        (Resolved 200 (Inr (amelie\<lparr>year := Some 2002\<rparr>))) catalogue"
  have c: "allMovies catalogue = [dune, amelie]" by (simp add: catalogue_def)
  have "length (allMovies ?s) = 2 \<and> allMovies ?s ! 0 = dune
      \<and> allMovies ?s ! 1 = amelie\<lparr>year := Some 2002\<rparr>"
    using cache_after_create_and_update [OF k, of "amelie\<lparr>year := Some 2002\<rparr>" catalogue
        "Some (IdNum 2)"]
    by (simp add: c dune_def amelie_def)
  then have b: "allMovies ?s = [dune, amelie\<lparr>year := Some 2002\<rparr>]"
    by (cases "allMovies ?s"; cases "tl (allMovies ?s)") auto
  have n: "Some (IdNum 3) \<notin> movie_id ` set (allMovies catalogue)"
    by (simp add: c dune_def amelie_def)
  have u: "allMovies (editMoviePrompt_settle (Some (IdNum 3))
        (Resolved 200 (Inr (amelie\<lparr>movie_id := Some (IdNum 3)\<rparr>))) catalogue) = [dune, amelie]"
    using cache_after_create_and_update [OF k, of "amelie\<lparr>movie_id := Some (IdNum 3)\<rparr>"
        catalogue "Some (IdNum 3)"] n
    by (simp add: c)
  show ?thesis using k a b u by simp
qed

text \<open>
  The claim as stated fails on both paths. A create that returns a movie whose id is
  already cached makes the cache longer instead of replacing the entry; an update for an
  id that is not cached does not make the cache one longer.
\<close>

theorem upsert_counterexample:
  "Some (IdNum 1) \<in> movie_id ` set (allMovies catalogue)
   \<and> length (allMovies (addMovie_settle (Resolved 201 (Inr dune)) catalogue))
       \<noteq> length (allMovies catalogue)
   \<and> Some (IdNum 3) \<notin> movie_id ` set (allMovies catalogue)
   \<and> length (allMovies (editMoviePrompt_settle (Some (IdNum 3))
          (Resolved 200 (Inr (dune\<lparr>movie_id := Some (IdNum 3)\<rparr>))) catalogue))
       \<noteq> Suc (length (allMovies catalogue))"
  by (simp add: catalogue_def init_app_def dune_def amelie_def addMovie_settle_def
      editMoviePrompt_settle_def ok_def Let_def allMovies_renderMovies)

subsection \<open>Filtering\<close>

text \<open>
  Claim C2, as the code has it. For a query that is not blank, the result is the cache
  filtered, in the cache's order, by: the trimmed and lowercased query is a substring of
  the lowercased title or of the lowercased genre, a missing title or genre counting as
  the empty string. So the result is a subsequence of the cache, and an entry is in it
  exactly when it is in the cache and matches.
\<close>

theorem filterMovies_nonblank:
  "trim query \<noteq> [] \<Longrightarrow>
     filterMovies s query =
       filter (\<lambda>m. sublist (toLowerCase (trim query)) (toLowerCase (strOr (title m) []))
                 \<or> sublist (toLowerCase (trim query)) (toLowerCase (strOr (genre m) [])))
         (allMovies s)
     \<and> subseq (filterMovies s query) (allMovies s)
     \<and> (m \<in> set (filterMovies s query) \<longleftrightarrow>
          m \<in> set (allMovies s) \<and>
          (sublist (toLowerCase (trim query)) (toLowerCase (strOr (title m) []))
           \<or> sublist (toLowerCase (trim query)) (toLowerCase (strOr (genre m) []))))"
  by (simp add: filterMovies_def Let_def toLowerCase_Nil_iff str_includes_sublist)

theorem filterMovies_nonblank_witness:
  "trim ''  SCI '' \<noteq> [] \<and> filterMovies catalogue ''  SCI '' = [dune]
   \<and> subseq [dune] (allMovies catalogue)"
proof -
  have t: "trim ''  SCI '' \<noteq> []" by (simp add: trim_def isWhiteSpace_def)
  have f: "filterMovies catalogue ''  SCI '' = [dune]"
    by (simp add: filterMovies_def catalogue_def init_app_def dune_def amelie_def
        toLowerCase_def lowerChar_def trim_def isWhiteSpace_def strOr_def)
  have o: "subseq (filterMovies catalogue ''  SCI '') (allMovies catalogue)"
    using filterMovies_nonblank [OF t, of catalogue dune] by blast
  show ?thesis
    using t f o [unfolded f] by blast
qed

text \<open>
  The claim as stated compares with the lowercased query itself. The query \<open>'' dune''\<close>
  (one leading blank) is not blank; the script trims it, so Dune is in the result,
  although the lowercased query, blank included, occurs neither in its lowercased title
  nor in its lowercased genre.
\<close>

theorem filterMovies_lowercased_counterexample:
  "trim '' dune'' \<noteq> []
   \<and> dune \<in> set (filterMovies catalogue '' dune'')
   \<and> \<not> sublist (toLowerCase '' dune'') (toLowerCase (strOr (title dune) []))
   \<and> \<not> sublist (toLowerCase '' dune'') (toLowerCase (strOr (genre dune) []))"
  by (simp add: str_includes_sublist [symmetric] filterMovies_def catalogue_def init_app_def
      dune_def amelie_def toLowerCase_def lowerChar_def trim_def isWhiteSpace_def strOr_def)

text \<open>
  Claim C3. A query that is empty or consists of white space only gives the cache itself:
  the same entries in the same order.
\<close>

theorem filterMovies_blank:
  "list_all isWhiteSpace query \<Longrightarrow> filterMovies s query = allMovies s"
  using trim_Nil_iff [of query] by (simp add: filterMovies_def toLowerCase_def list_all_iff)

theorem filterMovies_blank_witness:
  "list_all isWhiteSpace ''   '' \<and> filterMovies catalogue ''   '' = [dune, amelie]
   \<and> filterMovies catalogue [] = [dune, amelie]"
proof -
  have b: "list_all isWhiteSpace ''   ''" by (simp add: isWhiteSpace_def)
  have e: "list_all isWhiteSpace []" by simp
  show ?thesis
    using b filterMovies_blank [OF b, of catalogue] filterMovies_blank [OF e, of catalogue]
    by (simp add: catalogue_def init_app_def)
qed

subsection \<open>Deleting\<close>

text \<open>
  Claim C4, as the code has it. After a confirmed delete of the id \<open>i\<close> that the server
  answers with success, no entry of the cache has the id \<open>i\<close>; the cache is shorter by
  the number of entries that had it, which is exactly one when the ids of the cache are
  distinct and \<open>i\<close> is among them; the cache is unchanged when \<open>i\<close> is not among them;
  and the container shows the whole cache, unfiltered.
\<close>

theorem deleteMovie_success:
  "ok st \<Longrightarrow>
     i \<notin> movie_id ` set (allMovies (deleteMovie i True (Resolved st body) s))
     \<and> length (allMovies (deleteMovie i True (Resolved st body) s))
         + length (filter (\<lambda>m. movie_id m = i) (allMovies s)) = length (allMovies s)
     \<and> (distinct (map movie_id (allMovies s)) \<and> i \<in> movie_id ` set (allMovies s) \<longrightarrow>
          Suc (length (allMovies (deleteMovie i True (Resolved st body) s))) = length (allMovies s))
     \<and> (i \<notin> movie_id ` set (allMovies s) \<longrightarrow>
          allMovies (deleteMovie i True (Resolved st body) s) = allMovies s)
     \<and> movieListEl (deleteMovie i True (Resolved st body) s) =
         (if allMovies (deleteMovie i True (Resolved st body) s) = [] then [noResults]
          else map movieElement (allMovies (deleteMovie i True (Resolved st body) s)))"
proof -
  assume st: "ok st"
  let ?s' = "deleteMovie i True (Resolved st body) s"
  have cache: "allMovies ?s' = filter (\<lambda>m. movie_id m \<noteq> i) (allMovies s)"
    using st by (simp add: deleteMovie_def deleteMovie_begin_def deleteMovie_settle_def Let_def
        allMovies_renderMovies)
  have page: "movieListEl ?s' =
      (if allMovies ?s' = [] then [noResults] else map movieElement (allMovies ?s'))"
    using st by (simp add: deleteMovie_def deleteMovie_begin_def deleteMovie_settle_def Let_def
        movieListEl_renderMovies allMovies_renderMovies)
  have gone: "i \<notin> movie_id ` set (allMovies ?s')"
    by (auto simp: cache)
  have size: "length (allMovies ?s') + length (filter (\<lambda>m. movie_id m = i) (allMovies s)) =
      length (allMovies s)"
    using length_filter_split [of "\<lambda>m. movie_id m = i" "allMovies s"] by (simp add: cache)
  have one: "distinct (map movie_id (allMovies s)) \<and> i \<in> movie_id ` set (allMovies s) \<longrightarrow>
      Suc (length (allMovies ?s')) = length (allMovies s)"
    using size distinct_count_one [of movie_id "allMovies s" i] by auto
  have same: "i \<notin> movie_id ` set (allMovies s) \<longrightarrow> allMovies ?s' = allMovies s"
    by (auto simp: cache filter_id_conv)
  show ?thesis
    using gone size one same page by blast
qed

theorem deleteMovie_success_witness:
  "ok 200
   \<and> allMovies (deleteMovie (Some (IdNum 2)) True (Resolved 200 (Inl [])) catalogue) = [dune]
   \<and> length (movieListEl (deleteMovie (Some (IdNum 2)) True (Resolved 200 (Inl [])) catalogue)) = 1
   \<and> allMovies (deleteMovie (Some (IdNum 3)) True (Resolved 200 (Inl [])) catalogue)
       = [dune, amelie]"
proof -
  have k: "ok 200" by (simp add: ok_def)
  let ?s = "deleteMovie (Some (IdNum 2)) True (Resolved 200 (Inl [])) catalogue"
  have c: "allMovies catalogue = [dune, amelie]" by (simp add: catalogue_def)
  have d: "distinct (map movie_id (allMovies catalogue))" by (simp add: c dune_def amelie_def)
  have i: "Some (IdNum 2) \<in> movie_id ` set (allMovies catalogue)" by (simp add: c amelie_def)
  have t: "Suc (length (allMovies ?s)) = 2
      \<and> movieListEl ?s = (if allMovies ?s = [] then [noResults] else map movieElement (allMovies ?s))"
    using deleteMovie_success [OF k, of "Some (IdNum 2)" "Inl []" catalogue] d i c by simp
  have a: "allMovies ?s = [dune]"
    by (simp add: deleteMovie_def deleteMovie_begin_def deleteMovie_settle_def ok_def Let_def
        allMovies_renderMovies c dune_def amelie_def)
  have n: "Some (IdNum 3) \<notin> movie_id ` set (allMovies catalogue)"
    by (simp add: c dune_def amelie_def)
  have u: "allMovies (deleteMovie (Some (IdNum 3)) True (Resolved 200 (Inl [])) catalogue)
      = [dune, amelie]"
    using deleteMovie_success [OF k, of "Some (IdNum 3)" "Inl []" catalogue] n by (simp add: c)
  show ?thesis using k a t u by simp
qed

text \<open>
  The claim as stated promises a cache shorter by exactly one. With two entries of the
  id 1 in a cache of three, the delete of the id 1 leaves one entry.
\<close>

theorem deleteMovie_duplicates_counterexample:
  "Some (IdNum 1) \<in> movie_id ` set (allMovies (catalogue\<lparr>allMovies := [dune, amelie, dune]\<rparr>))
   \<and> length (allMovies (deleteMovie (Some (IdNum 1)) True (Resolved 200 (Inl []))
               (catalogue\<lparr>allMovies := [dune, amelie, dune]\<rparr>))) = 1
   \<and> length (allMovies (catalogue\<lparr>allMovies := [dune, amelie, dune]\<rparr>)) = 3"
  by (simp add: catalogue_def init_app_def dune_def amelie_def deleteMovie_def
      deleteMovie_begin_def deleteMovie_settle_def ok_def Let_def allMovies_renderMovies)

subsection \<open>Editing: the prompts\<close>

text \<open>
  Cancel at the first or at the second prompt ends the edit: no request is sent and the
  cache stays.
\<close>

lemma edit_cancel_title_or_year:
  "a_title = None \<or> a_year = None \<Longrightarrow>
     requests (editMoviePrompt i ct cy cg a_title a_year a_genre r s) = requests s
     \<and> allMovies (editMoviePrompt i ct cy cg a_title a_year a_genre r s) = allMovies s"
  by (auto simp: editMoviePrompt_def editMoviePrompt_begin_def requests_def Let_def
      showError_def split: option.splits)

text \<open>
  Claim C5 says that Cancel at any of the three prompts ends the edit with no request
  sent and the cache unchanged. At the third prompt the script does not do so: the
  \<^verbatim>\<open>null\<close> of a cancelled genre prompt becomes the empty string. Here the user edits
  Dune, keeps title and year and cancels the genre prompt: the PATCH request goes out
  with an empty genre, and the cache takes the server's answer.
\<close>

theorem edit_cancel_genre_sends_update:
  "requests (editMoviePrompt (Some (IdNum 1)) (Some ''Dune'') (Some 2021) (Some ''Sci-Fi'')
       (Some ''Dune'') (Some ''2021'') None
       (Resolved 200 (Inr (dune\<lparr>genre := Some []\<rparr>))) catalogue)
     = [Fetch PATCH ''http://localhost:3000/movies/1''
          (Some \<lparr>p_title = ''Dune'', p_year = Some 2021, p_genre = []\<rparr>)]
   \<and> requests catalogue = []
   \<and> allMovies (editMoviePrompt (Some (IdNum 1)) (Some ''Dune'') (Some 2021) (Some ''Sci-Fi'')
       (Some ''Dune'') (Some ''2021'') None
       (Resolved 200 (Inr (dune\<lparr>genre := Some []\<rparr>))) catalogue)
     = [dune\<lparr>genre := Some []\<rparr>, amelie]
   \<and> allMovies catalogue = [dune, amelie]"
  by (simp add: editMoviePrompt_def editMoviePrompt_begin_def editMoviePrompt_settle_def
      requests_def Let_def catalogue_def init_app_def dune_def amelie_def ok_def
      allMovies_renderMovies io_renderMovies parseInt_def isWhiteSpace_def isDigit_def
      digitsValue_def trim_def strOr_def numOr_def show_ident_def show_int_def show_nat.simps
      digit_def API_URL_def)

text \<open>
  Claim C10. An edit for an entity whose id is undefined only reports
  \<open>''Cannot edit: missing id''\<close>: no prompt is shown, no request is sent (the effects are
  the same as before) and the cache is unchanged, whatever the other arguments are.
\<close>

theorem editMoviePrompt_missing_id:
  "editMoviePrompt None ct cy cg a_title a_year a_genre r s = showError ''Cannot edit: missing id'' s
   \<and> mm_error (editMoviePrompt None ct cy cg a_title a_year a_genre r s)
       = Some ''Cannot edit: missing id''
   \<and> io (editMoviePrompt None ct cy cg a_title a_year a_genre r s) = io s
   \<and> allMovies (editMoviePrompt None ct cy cg a_title a_year a_genre r s) = allMovies s"
  by (simp add: editMoviePrompt_def editMoviePrompt_begin_def showError_def)

subsection \<open>Adding: the presence checks\<close>

text \<open>
  Claim C6. When the title of the form is empty after trimming, or the year field is
  empty, the submit reports \<open>''Please provide Title and Year''\<close> at once; nothing is
  added to the effects, so no request is sent, and the cache is unchanged.
\<close>

theorem addMovie_validation:
  "trim titleVal = [] \<or> yearVal = [] \<Longrightarrow>
     mm_error (addMovie titleVal genreVal yearVal r s) = Some ''Please provide Title and Year''
     \<and> io (addMovie titleVal genreVal yearVal r s) = io s
     \<and> allMovies (addMovie titleVal genreVal yearVal r s) = allMovies s"
  by (auto simp: addMovie_def addMovie_begin_def Let_def showError_def)

theorem addMovie_validation_witness:
  "mm_error (addMovie [] [] ''2020'' (Resolved 201 (Inr dune)) catalogue)
     = Some ''Please provide Title and Year''
   \<and> io (addMovie [] [] ''2020'' (Resolved 201 (Inr dune)) catalogue) = []
   \<and> allMovies (addMovie [] [] ''2020'' (Resolved 201 (Inr dune)) catalogue) = [dune, amelie]"
proof -
  have h: "trim [] = [] \<or> ''2020'' = []" by (simp add: trim_def)
  show ?thesis
    using addMovie_validation [OF h, of "[]" "Resolved 201 (Inr dune)" catalogue]
    by (simp add: catalogue_def init_app_def)
qed

subsection \<open>Requests that fail\<close>

text \<open>
  Claim C7. When the response to a create, an update or a delete has a status outside
  200..299, the cache at that moment is left as it is, and the message reported is
  \<open>''Add failed: ''\<close>, \<open>''Update failed: ''\<close> or \<open>''Delete failed: ''\<close> followed by the
  status in decimal, so the message contains the status.
\<close>

theorem failed_mutation_keeps_cache:
  "\<not> ok st \<Longrightarrow>
     allMovies (addMovie_settle (Resolved st body) s) = allMovies s
     \<and> mm_error (addMovie_settle (Resolved st body) s) = Some (''Add failed: '' @ show_nat st)
     \<and> str_includes (''Add failed: '' @ show_nat st) (show_nat st)
     \<and> allMovies (editMoviePrompt_settle i (Resolved st body) s) = allMovies s
     \<and> mm_error (editMoviePrompt_settle i (Resolved st body) s)
         = Some (''Update failed: '' @ show_nat st)
     \<and> str_includes (''Update failed: '' @ show_nat st) (show_nat st)
     \<and> allMovies (deleteMovie_settle i (Resolved st body) s) = allMovies s
     \<and> mm_error (deleteMovie_settle i (Resolved st body) s)
         = Some (''Delete failed: '' @ show_nat st)
     \<and> str_includes (''Delete failed: '' @ show_nat st) (show_nat st)"
  using str_includes_append [of "''Add failed: ''" "show_nat st"]
    str_includes_append [of "''Update failed: ''" "show_nat st"]
    str_includes_append [of "''Delete failed: ''" "show_nat st"]
  by (simp add: addMovie_settle_def editMoviePrompt_settle_def deleteMovie_settle_def
      showError_def del: str_includes.simps)

text \<open>The scenario of the specification: the create of Nope, answered with 500.\<close>

theorem failed_mutation_keeps_cache_witness:
  "\<not> ok 500
   \<and> mm_error (addMovie ''Nope'' [] ''1999'' (Resolved 500 (Inl [])) catalogue)
       = Some ''Add failed: 500''
   \<and> str_includes ''Add failed: 500'' ''500''
   \<and> allMovies (addMovie ''Nope'' [] ''1999'' (Resolved 500 (Inl [])) catalogue)
       = allMovies catalogue"
proof -
  have k: "\<not> ok 500" by (simp add: ok_def)
  let ?s = "fst (addMovie_begin ''Nope'' [] ''1999'' catalogue)"
  have p: "snd (addMovie_begin ''Nope'' [] ''1999'' catalogue)"
    by (simp add: addMovie_begin_def Let_def trim_def isWhiteSpace_def parseInt_def isDigit_def
        digitsValue_def)
  have a: "addMovie ''Nope'' [] ''1999'' (Resolved 500 (Inl [])) catalogue
      = addMovie_settle (Resolved 500 (Inl [])) ?s"
    using p by (cases "addMovie_begin ''Nope'' [] ''1999'' catalogue") (simp add: addMovie_def)
  have c: "allMovies ?s = allMovies catalogue"
    by (simp add: addMovie_begin_def Let_def showError_def)
  show ?thesis
    using k failed_mutation_keeps_cache [OF k, of "Inl []" ?s]
    by (simp add: a c show_nat_500 del: str_includes.simps)
qed

subsection \<open>Rendering\<close>

text \<open>
  Claim C8. Rendering the empty sequence leaves exactly the placeholder paragraph in the
  container, with no listener in it. Rendering a non-empty sequence leaves one row per
  movie, in the order of the sequence; the row of a movie carries one Edit and one Delete
  listener and reads: the title or \<open>''(Untitled)''\<close>, then in parentheses the year or
  \<open>''N/A''\<close>, a dash and the genre or \<open>''Unknown''\<close>, then the two button labels.
\<close>

theorem renderMovies_rows:
  "movieListEl (renderMovies [] s) = [noResults]
   \<and> textContent noResults = ''No movies found matching your criteria.''
   \<and> concat (map triggers (movieListEl (renderMovies [] s))) = []
   \<and> movieListEl (renderMovies (m # ms) s) = map movieElement (m # ms)
   \<and> length (movieListEl (renderMovies (m # ms) s)) = length (m # ms)
   \<and> triggers (movieElement m)
       = [EditClick (movie_id m) (title m) (year m) (genre m), DeleteClick (movie_id m)]
   \<and> textContent (movieElement m)
       = strOr (title m) ''(Untitled)'' @ '' ('' @ numOr (year m) ''N/A'' @ '') - ''
           @ strOr (genre m) ''Unknown'' @ ''Edit'' @ ''Delete''
   \<and> textContent (movieElement (m\<lparr>title := None, year := None, genre := None\<rparr>))
       = ''(Untitled) (N/A) - UnknownEditDelete''"
  by (simp add: movieListEl_renderMovies noResults_def movieElement_def strOr_def numOr_def)

subsection \<open>The error element in time\<close>

text \<open>One element holds the message, and a later message replaces an earlier one.\<close>

lemma showError_replaces: "mm_error (showError m2 (showError m1 s)) = Some m2"
  by (simp add: showError_def)

text \<open>With no timeout pending, a message stays for 5000 ms and is cleared then.\<close>

lemma showError_alone:
  "timers s = [] \<Longrightarrow>
     mm_error (advance 5000 (showError m s)) = Some []
     \<and> (d < 5000 \<longrightarrow> mm_error (advance d (showError m s)) = Some m)"
  by (simp add: showError_def advance_def Let_def)

text \<open>
  Claim C9 says that a message is never cleared earlier than 5 seconds after it arrived.
  The script never cancels a timeout, so the timeout of an earlier message clears a
  later one. Here the first message arrives at 0 ms and the second at 3000 ms: the second
  is still shown at 4999 ms and is cleared at 5000 ms, 2000 ms after it arrived.
\<close>

theorem showError_cleared_early:
  "mm_error (advance 1999 (showError ''second'' (advance 3000 (showError ''first'' init_app))))
     = Some ''second''
   \<and> mm_error (advance 2000 (showError ''second'' (advance 3000 (showError ''first'' init_app))))
     = Some []
   \<and> now (showError ''second'' (advance 3000 (showError ''first'' init_app))) = 3000
   \<and> now (advance 2000 (showError ''second'' (advance 3000 (showError ''first'' init_app)))) = 5000"
  by (simp add: showError_def advance_def init_app_def Let_def)

end
